theory Spec2Isabelle
  imports Main "HOL-Library.AList"
begin

section \<open>Python values\<close>

text \<open>
  A Python \<open>str\<close> is a sequence of Unicode code points, so a string is a list of
  natural numbers; \<open>py\<close> turns an ASCII literal into such a list.
\<close>

type_synonym pystr = "nat list"

definition py :: "string \<Rightarrow> pystr" where
  "py s = map of_char s"

text \<open>
  The instances of Python's class \<open>int\<close>: the integers proper and, because \<open>bool\<close> is a
  subclass of \<open>int\<close>, the two truth values. \<open>isinstance(v, int)\<close> holds for both, and in
  arithmetic and comparisons \<open>True\<close> counts as 1 and \<open>False\<close> as 0.
\<close>

datatype pyint = IntObj int | BoolObj bool

fun int_value :: "pyint \<Rightarrow> int" where
  "int_value (IntObj i) = i"
| "int_value (BoolObj b) = (if b then 1 else 0)"

text \<open>
  The values an argument or a decoded JSON document can be. A float is carried as the
  pair (mantissa, decimal exponent) of its literal: the program never computes with one,
  it only tests that it is not an \<open>int\<close>. A \<open>dict\<close> is the list of its items in insertion
  order.
\<close>

datatype pyval =
    PNone
  | PInt pyint
  | PFloat int int
  | PStr pystr
  | PList "pyval list"
  | PDict "(pyval \<times> pyval) list"

text \<open>\<open>a + b\<close> and \<open>a - b\<close> on instances of \<open>int\<close>: the result is always a proper \<open>int\<close>.\<close>

definition py_add :: "pyint \<Rightarrow> pyint \<Rightarrow> pyint" where
  "py_add a b = IntObj (int_value a + int_value b)"

definition py_sub :: "pyint \<Rightarrow> pyint \<Rightarrow> pyint" where
  "py_sub a b = IntObj (int_value a - int_value b)"

subsection \<open>Dictionaries\<close>

text \<open>
  \<open>d.get(k, default)\<close>, \<open>d[k] = v\<close> (an existing key keeps its place, a new one goes to
  the end) and \<open>k in d\<close>. Reading \<open>d[k]\<close> and \<open>del d[k]\<close> fail on a key that is not there;
  \<open>dict_item\<close> and \<open>dict_del\<close> then return nothing and the caller raises \<open>KeyError\<close>.
\<close>

definition dict_get :: "('k \<times> 'v) list \<Rightarrow> 'k \<Rightarrow> 'v \<Rightarrow> 'v" where
  "dict_get d k dflt = (case map_of d k of None \<Rightarrow> dflt | Some v \<Rightarrow> v)"

definition dict_set :: "('k \<times> 'v) list \<Rightarrow> 'k \<Rightarrow> 'v \<Rightarrow> ('k \<times> 'v) list" where
  "dict_set d k v = AList.update k v d"

definition dict_item :: "('k \<times> 'v) list \<Rightarrow> 'k \<Rightarrow> 'v option" where
  "dict_item d k = map_of d k"

definition dict_del :: "('k \<times> 'v) list \<Rightarrow> 'k \<Rightarrow> ('k \<times> 'v) list option" where
  "dict_del d k = (if map_of d k = None then None else Some (AList.delete k d))"

definition dict_contains :: "('k \<times> 'v) list \<Rightarrow> 'k \<Rightarrow> bool" where
  "dict_contains d k = (map_of d k \<noteq> None)"

text \<open>A list of items is a dictionary when no key occurs twice.\<close>

definition is_dict :: "('k \<times> 'v) list \<Rightarrow> bool" where
  "is_dict d = distinct (map fst d)"

subsection \<open>Strings\<close>

text \<open>
  The code points \<open>str.strip()\<close> removes: those Python counts as whitespace.
\<close>

definition is_space :: "nat \<Rightarrow> bool" where
  "is_space c =
     ((9 \<le> c \<and> c \<le> 13) \<or> (28 \<le> c \<and> c \<le> 32) \<or> c = 133 \<or> c = 160 \<or> c = 5760
      \<or> (8192 \<le> c \<and> c \<le> 8202) \<or> c = 8232 \<or> c = 8233 \<or> c = 8239 \<or> c = 8287
      \<or> c = 12288)"

definition strip :: "pystr \<Rightarrow> pystr" where
  "strip s = rev (dropWhile is_space (rev (dropWhile is_space s)))"

text \<open>\<open>str(n)\<close> for a natural number, and for an instance of \<open>int\<close>.\<close>

fun str_nat :: "nat \<Rightarrow> pystr" where
  "str_nat n = (if n < 10 then [48 + n] else str_nat (n div 10) @ [48 + n mod 10])"

declare str_nat.simps [simp del]

fun str_pyint :: "pyint \<Rightarrow> pystr" where
  "str_pyint (IntObj i) = (if i < 0 then 45 # str_nat (nat (- i)) else str_nat (nat i))"
| "str_pyint (BoolObj b) = (if b then py ''True'' else py ''False'')"

text \<open>A decimal number padded with zeros on the left to a width, as \<open>%02d\<close> does.\<close>

definition zero_pad :: "nat \<Rightarrow> nat \<Rightarrow> pystr" where
  "zero_pad w n = replicate (w - length (str_nat n)) 48 @ str_nat n"

subsection \<open>The clock\<close>

text \<open>
  What \<open>datetime.now()\<close> returns: a naive local time. \<open>isoformat(timespec="seconds")\<close>
  prints it as \<open>YYYY-MM-DDTHH:MM:SS\<close> and leaves the microseconds out.
\<close>

record datetime =
  year :: nat
  month :: nat
  day :: nat
  hour :: nat
  minute :: nat
  second :: nat
  microsecond :: nat

definition isoformat :: "datetime \<Rightarrow> pystr" where
  "isoformat t =
     zero_pad 4 (year t) @ [45] @ zero_pad 2 (month t) @ [45] @ zero_pad 2 (day t) @ [84]
     @ zero_pad 2 (hour t) @ [58] @ zero_pad 2 (minute t) @ [58] @ zero_pad 2 (second t)"


subsection \<open>Exceptions\<close>

text \<open>
  The exceptions the program raises itself (\<open>ValueError\<close> and \<open>KeyError\<close>, with their
  messages) and those that opening, decoding and parsing a file raise. \<open>OSError\<close> stands
  for every operating-system error other than \<open>FileNotFoundError\<close>.
\<close>

datatype exn =
    ValueError pystr
  | KeyError pystr
  | FileNotFoundError
  | OSError
  | UnicodeDecodeError
  | UnicodeEncodeError
  | JSONDecodeError

text \<open>The class hierarchy an \<open>except\<close> clause tests.\<close>

fun is_OSError :: "exn \<Rightarrow> bool" where
  "is_OSError FileNotFoundError = True"
| "is_OSError OSError = True"
| "is_OSError _ = False"

fun is_ValueError :: "exn \<Rightarrow> bool" where
  "is_ValueError (ValueError _) = True"
| "is_ValueError UnicodeDecodeError = True"
| "is_ValueError UnicodeEncodeError = True"
| "is_ValueError JSONDecodeError = True"
| "is_ValueError _ = False"

section \<open>The world outside the inventory\<close>

subsection \<open>Caller-owned lists\<close>

text \<open>
  The list objects that exist, by address. A \<open>logs\<close> argument is a reference to one of
  them or \<open>None\<close>; \<open>[]\<close> allocates a new object at the next free address, and
  \<open>logs.append(x)\<close> changes the object in place.
\<close>

type_synonym ref = nat
type_synonym heap = "pystr list list"

definition new_list :: "heap \<Rightarrow> ref \<times> heap" where
  "new_list h = (length h, h @ [ [] ])"

definition list_append :: "heap \<Rightarrow> ref \<Rightarrow> pystr \<Rightarrow> heap" where
  "list_append h r x = h[r := h ! r @ [x] ]"

subsection \<open>Files and the JSON codec\<close>

text \<open>
  A JSON document as a syntax tree. An object is the list of its members in the order
  of the text; a text may repeat a name.
\<close>

datatype json =
    JNull
  | JBool bool
  | JInt int
  | JReal int int
  | JStr pystr
  | JArr "json list"
  | JObj "(pystr \<times> json) list"

text \<open>
  What a path holds: nothing; something that cannot be opened (no permission, a
  directory); bytes that are not UTF-8; text that is not JSON; or a JSON document.
\<close>

datatype file_state = Absent | Unopenable | NotUtf8 | NotJson | Doc json

type_synonym filesystem = "pystr \<Rightarrow> file_state"

text \<open>
  \<open>json.load\<close> on a document: an object becomes a \<open>dict\<close> with \<open>str\<close> keys, built member
  by member, so a repeated name keeps its first place and its last value; \<open>true\<close> and
  \<open>false\<close> become \<open>True\<close> and \<open>False\<close>.
\<close>

fun json_load :: "json \<Rightarrow> pyval" where
  "json_load JNull = PNone"
| "json_load (JBool b) = PInt (BoolObj b)"
| "json_load (JInt i) = PInt (IntObj i)"
| "json_load (JReal m e) = PFloat m e"
| "json_load (JStr s) = PStr s"
| "json_load (JArr xs) = PList (map json_load xs)"
| "json_load (JObj ms) =
     PDict (fold (\<lambda>(k, v) d. dict_set d k v) (map (\<lambda>(k, v). (PStr k, json_load v)) ms) [])"

text \<open>\<open>open(file_path, "r", encoding="utf-8")\<close> followed by \<open>json.load(f)\<close>.\<close>

definition open_json_load :: "filesystem \<Rightarrow> pystr \<Rightarrow> exn + pyval" where
  "open_json_load fs file_path =
     (case fs file_path of
        Absent \<Rightarrow> Inl FileNotFoundError
      | Unopenable \<Rightarrow> Inl OSError
      | NotUtf8 \<Rightarrow> Inl UnicodeDecodeError
      | NotJson \<Rightarrow> Inl JSONDecodeError
      | Doc j \<Rightarrow> Inr (json_load j))"




section \<open>InventoryManager\<close>

text \<open>
  The class has one attribute, \<open>stock_data\<close>. Every key the methods store has passed
  \<open>isinstance(_, str)\<close> and every value \<open>isinstance(_, int)\<close> or is the result of an
  addition or subtraction, hence the type. A method returns its result or the exception
  it raises, together with the state it leaves behind: an exception does not undo an
  assignment made before it. The calls to \<open>logging\<close> change nothing the methods or their
  callers read and are left out.
\<close>

record inventory =
  stock_data :: "(pystr \<times> pyint) list"

definition init :: inventory where
  "init = \<lparr>stock_data = []\<rparr>"

definition add_item ::
  "datetime \<Rightarrow> pyval \<Rightarrow> pyval \<Rightarrow> ref option \<Rightarrow> inventory \<times> heap \<Rightarrow> (exn + unit) \<times> inventory \<times> heap"
where
  "add_item now item qty logs st =
     (case item of
        PStr name \<Rightarrow>
          if strip name = [] then (Inl (ValueError (py ''item must be a non-empty string'')), st)
          else
            (case qty of
               PInt q \<Rightarrow>
                 if int_value q < 0
                 then (Inl (ValueError (py ''qty must be a non-negative integer'')), st)
                 else
                   (let (self, h) = st;
                        current = dict_get (stock_data self) name (IntObj 0);
                        self' = self\<lparr>stock_data := dict_set (stock_data self) name (py_add current q)\<rparr>;
                        (r, h') = (case logs of None \<Rightarrow> new_list h | Some a \<Rightarrow> (a, h));
                        timestamp = isoformat now
                    in (Inr (), self',
                        list_append h' r
                          (timestamp @ py '': Added '' @ str_pyint q @ py '' of '' @ name)))
             | _ \<Rightarrow> (Inl (ValueError (py ''qty must be a non-negative integer'')), st))
      | _ \<Rightarrow> (Inl (ValueError (py ''item must be a non-empty string'')), st))"

definition remove_item :: "pyval \<Rightarrow> pyval \<Rightarrow> inventory \<Rightarrow> (exn + unit) \<times> inventory" where
  "remove_item item qty self =
     (case item of
        PStr name \<Rightarrow>
          if strip name = [] then (Inl (ValueError (py ''item must be a non-empty string'')), self)
          else
            (case qty of
               PInt q \<Rightarrow>
                 if int_value q \<le> 0
                 then (Inl (ValueError (py ''qty must be a positive integer'')), self)
                 else if \<not> dict_contains (stock_data self) name
                 then (Inl (KeyError (py ''Item '' @ [39] @ name @ [39]
                                        @ py '' not found in inventory'')), self)
                 else
                   (case dict_item (stock_data self) name of
                      None \<Rightarrow> (Inl (KeyError name), self)
                    | Some old \<Rightarrow>
                        (let new_qty = py_sub old q
                         in if int_value new_qty > 0
                            then (Inr (), self\<lparr>stock_data := dict_set (stock_data self) name new_qty\<rparr>)
                            else (case dict_del (stock_data self) name of
                                    None \<Rightarrow> (Inl (KeyError name), self)
                                  | Some d \<Rightarrow> (Inr (), self\<lparr>stock_data := d\<rparr>))))
             | _ \<Rightarrow> (Inl (ValueError (py ''qty must be a positive integer'')), self))
      | _ \<Rightarrow> (Inl (ValueError (py ''item must be a non-empty string'')), self))"


text \<open>
  The loop of \<open>load_data\<close> over \<open>data.items()\<close>, with \<open>cleaned\<close> as accumulator.
\<close>

fun clean_items :: "(pyval \<times> pyval) list \<Rightarrow> (pystr \<times> pyint) list \<Rightarrow> (pystr \<times> pyint) list" where
  "clean_items [] cleaned = cleaned"
| "clean_items ((PStr key, PInt v) # rest) cleaned =
     (if int_value v \<ge> 0 then clean_items rest (dict_set cleaned key v)
      else clean_items rest cleaned)"
| "clean_items (_ # rest) cleaned = clean_items rest cleaned"

text \<open>The body of the \<open>try\<close> statement of \<open>load_data\<close>.\<close>

definition load_data_try :: "filesystem \<Rightarrow> pystr \<Rightarrow> inventory \<Rightarrow> (exn + unit) \<times> inventory" where
  "load_data_try fs file_path self =
     (case open_json_load fs file_path of
        Inl e \<Rightarrow> (Inl e, self)
      | Inr data \<Rightarrow>
          (case data of
             PDict items \<Rightarrow> (Inr (), self\<lparr>stock_data := clean_items items []\<rparr>)
           | _ \<Rightarrow> (Inl (ValueError (py ''Inventory file must contain a JSON object'')), self)))"

text \<open>
  \<open>load_data\<close>: the \<open>try\<close> body under its two \<open>except\<close> clauses, tested in order; an
  exception neither clause matches goes on to the caller.
\<close>

definition load_data :: "filesystem \<Rightarrow> pystr \<Rightarrow> inventory \<Rightarrow> (exn + unit) \<times> inventory" where
  "load_data fs file_path self =
     (case load_data_try fs file_path self of
        (Inr u, self') \<Rightarrow> (Inr u, self')
      | (Inl e, self') \<Rightarrow>
          if e = FileNotFoundError then (Inr (), self'\<lparr>stock_data := []\<rparr>)
          else if e = JSONDecodeError \<or> is_OSError e \<or> is_ValueError e then (Inr (), self')
          else (Inl e, self'))"


definition check_low_items :: "pyval \<Rightarrow> inventory \<Rightarrow> (exn + pystr list) \<times> inventory" where
  "check_low_items threshold self =
     (case threshold of
        PInt t \<Rightarrow>
          if int_value t < 0 then (Inl (ValueError (py ''threshold must be non-negative'')), self)
          else (Inr (map fst (filter (\<lambda>(n, q). int_value q < int_value t) (stock_data self))), self)
      | _ \<Rightarrow> (Inl (ValueError (py ''threshold must be non-negative'')), self))"

section \<open>Notions of the specification\<close>

text \<open>
  An item name is acceptable when it is a \<open>str\<close> that is not empty once trimmed; a
  quantity when it is an instance of \<open>int\<close> that is not negative (so \<open>True\<close> and
  \<open>False\<close>, being instances of \<open>int\<close>, are acceptable quantities 1 and 0).
\<close>

definition valid_item :: "pyval \<Rightarrow> bool" where
  "valid_item item = (case item of PStr name \<Rightarrow> strip name \<noteq> [] | _ \<Rightarrow> False)"

definition valid_qty :: "pyval \<Rightarrow> bool" where
  "valid_qty qty = (case qty of PInt q \<Rightarrow> 0 \<le> int_value q | _ \<Rightarrow> False)"

text \<open>A threshold is acceptable under the same test as a quantity.\<close>

definition valid_threshold :: "pyval \<Rightarrow> bool" where
  "valid_threshold threshold = (case threshold of PInt t \<Rightarrow> 0 \<le> int_value t | _ \<Rightarrow> False)"










text \<open>A clock reading and a file system without files, for the examples.\<close>

definition sample_time :: datetime where
  "sample_time =
     \<lparr>year = 2025, month = 10, day = 3, hour = 9, minute = 5, second = 7, microsecond = 123456\<rparr>"

definition no_files :: filesystem where
  "no_files = (\<lambda>p. Absent)"

section \<open>Dictionary lemmas\<close>




lemma dict_del_Some:
  "dict_del d k = Some d' \<Longrightarrow> map_of d' = (map_of d)(k := None)"
  by (auto simp: dict_del_def delete_conv' split: if_splits)


lemma absent_iff: "k \<notin> fst ` set d \<longleftrightarrow> map_of d k = None"
  by (simp add: map_of_eq_None_iff)

lemma is_dict_mem: "is_dict d \<Longrightarrow> (k, v) \<in> set d \<longleftrightarrow> map_of d k = Some v"
  by (auto simp: is_dict_def dest: map_of_SomeD)


section \<open>Trimming\<close>






section \<open>Adding\<close>





text \<open>
  C7: \<open>add_item\<close> with an item that is not a string or is empty once trimmed, or with a
  quantity that is not an instance of \<open>int\<close> or is negative, raises \<open>ValueError\<close> and
  leaves the inventory and the caller's lists as they were.
\<close>

theorem add_item_invalid:
  assumes "\<not> valid_item item \<or> \<not> valid_qty qty"
  shows "add_item now item qty logs (self, h) =
           (Inl (ValueError (if valid_item item then py ''qty must be a non-negative integer''
                             else py ''item must be a non-empty string'')), (self, h))"
  using assms
  by (auto simp: add_item_def valid_item_def valid_qty_def split: pyval.splits)

theorem add_item_invalid_witness:
  "add_item sample_time (PStr (py ''banana'')) (PInt (IntObj (- 2))) None (init, []) =
     (Inl (ValueError (py ''qty must be a non-negative integer'')), (init, []))"
  using add_item_invalid [of "PStr (py ''banana'')" "PInt (IntObj (- 2))" sample_time None init "[]"]
  by (simp add: valid_item_def valid_qty_def strip_def py_def is_space_def)



section \<open>Removing\<close>

text \<open>
  C6: \<open>remove_item\<close> of a name that is not a key of the mapping, with a positive
  integer quantity, raises \<open>KeyError\<close> and returns the inventory unchanged, so the key
  is not created.
\<close>

theorem remove_item_absent:
  assumes "strip name \<noteq> []" and "0 < int_value q" and "name \<notin> fst ` set (stock_data self)"
  shows "remove_item (PStr name) (PInt q) self =
           (Inl (KeyError (py ''Item '' @ [39] @ name @ [39] @ py '' not found in inventory'')), self)"
  using assms by (simp add: remove_item_def dict_contains_def absent_iff)

theorem remove_item_absent_witness:
  "remove_item (PStr (py ''orange'')) (PInt (IntObj 1)) \<lparr>stock_data = [(py ''apple'', IntObj 7)]\<rparr> =
     (Inl (KeyError (py ''Item '' @ [39] @ py ''orange'' @ [39] @ py '' not found in inventory'')),
      \<lparr>stock_data = [(py ''apple'', IntObj 7)]\<rparr>)"
  using remove_item_absent [of "py ''orange''" "IntObj 1" "\<lparr>stock_data = [(py ''apple'', IntObj 7)]\<rparr>"]
  by (simp add: strip_def py_def is_space_def)

section \<open>Loading and saving\<close>













text \<open>The example of the claim: the object mixing valid and invalid members.\<close>

lemma load_data_example:
  "load_data (no_files(py ''inventory.json'' :=
            Doc (JObj [(py ''x'', JInt 3), (py ''y'', JInt (- 1)), (py ''z'', JStr (py ''bad''))])))
          (py ''inventory.json'') \<lparr>stock_data = [(py ''old'', IntObj 9)]\<rparr>
        = (Inr (), \<lparr>stock_data = [(py ''x'', IntObj 3)]\<rparr>)"
  by (simp add: load_data_def load_data_try_def open_json_load_def init_def dict_set_def py_def)






section \<open>Low stock\<close>

text \<open>
  C8: for a threshold that is a non-negative integer, \<open>check_low_items\<close> returns,
  without changing the inventory, a list whose elements are exactly the names stored
  with a quantity strictly below the threshold, each once; for a threshold that is not
  an instance of \<open>int\<close> or is negative it raises \<open>ValueError\<close>, again without
  changing the inventory.
\<close>

theorem check_low_items_result:
  assumes "is_dict (stock_data self)"
  shows "(\<forall>t. threshold = PInt t \<and> 0 \<le> int_value t \<longrightarrow>
            (\<exists>names. check_low_items threshold self = (Inr names, self) \<and> distinct names \<and>
               set names = {n. \<exists>q. map_of (stock_data self) n = Some q \<and> int_value q < int_value t}))
         \<and> (\<not> valid_threshold threshold \<longrightarrow>
              check_low_items threshold self =
                (Inl (ValueError (py ''threshold must be non-negative'')), self))"
proof (intro conjI allI impI)
  fix t assume t: "threshold = PInt t \<and> 0 \<le> int_value t"
  let ?names = "map fst (filter (\<lambda>(n, q). int_value q < int_value t) (stock_data self))"
  have "check_low_items threshold self = (Inr ?names, self)"
    using t by (simp add: check_low_items_def)
  moreover have "distinct ?names"
    using assms by (simp add: is_dict_def distinct_map_filter)
  moreover have "set ?names = {n. \<exists>q. map_of (stock_data self) n = Some q \<and> int_value q < int_value t}"
    using is_dict_mem [OF assms] by force
  ultimately show "\<exists>names. check_low_items threshold self = (Inr names, self) \<and> distinct names \<and>
               set names = {n. \<exists>q. map_of (stock_data self) n = Some q \<and> int_value q < int_value t}"
    by blast
next
  assume "\<not> valid_threshold threshold"
  then show "check_low_items threshold self =
                (Inl (ValueError (py ''threshold must be non-negative'')), self)"
    by (auto simp: check_low_items_def valid_threshold_def split: pyval.splits)
qed

theorem check_low_items_result_witness:
  "(\<exists>names. check_low_items (PInt (IntObj 5))
               \<lparr>stock_data = [(py ''apple'', IntObj 7), (py ''pear'', IntObj 2)]\<rparr>
             = (Inr names, \<lparr>stock_data = [(py ''apple'', IntObj 7), (py ''pear'', IntObj 2)]\<rparr>)
           \<and> set names = {py ''pear''})
   \<and> check_low_items (PInt (IntObj (- 1)))
        \<lparr>stock_data = [(py ''apple'', IntObj 7), (py ''pear'', IntObj 2)]\<rparr>
      = (Inl (ValueError (py ''threshold must be non-negative'')),
         \<lparr>stock_data = [(py ''apple'', IntObj 7), (py ''pear'', IntObj 2)]\<rparr>)"
  using check_low_items_result [of "\<lparr>stock_data = [(py ''apple'', IntObj 7), (py ''pear'', IntObj 2)]\<rparr>"
                                   "PInt (IntObj 5)"]
        check_low_items_result [of "\<lparr>stock_data = [(py ''apple'', IntObj 7), (py ''pear'', IntObj 2)]\<rparr>"
                                   "PInt (IntObj (- 1))"]
  by (auto simp: is_dict_def py_def valid_threshold_def)

section \<open>Zero-quantity entries\<close>

















section \<open>Audit lines\<close>



lemma str_nat_nonempty: "str_nat n \<noteq> []"
  by (subst str_nat.simps) simp






end
